theory Spec2Isabelle
  imports Main
begin

section \<open>JavaScript values\<close>

text \<open>
  The values that cross the bridge are JSON-like JavaScript values. An object is a finite
  map from property names to values; \<open>undefined\<close> is a value of its own. Numbers are
  modelled as integers: no payload of the functions modelled here is inspected
  numerically, only its type and truthiness are.
\<close>

datatype jsval =
    JUndefined
  | JNull
  | JBool bool
  | JNum int
  | JStr string
  | JArr "jsval list"
  | JObj "string \<Rightarrow> jsval option"

type_synonym obj = "string \<Rightarrow> jsval option"

text \<open>The \<open>typeof\<close> operator.\<close>

fun typeof :: "jsval \<Rightarrow> string" where
  "typeof JUndefined = ''undefined''"
| "typeof JNull = ''object''"
| "typeof (JBool b) = ''boolean''"
| "typeof (JNum n) = ''number''"
| "typeof (JStr s) = ''string''"
| "typeof (JArr xs) = ''object''"
| "typeof (JObj m) = ''object''"

text \<open>Truthiness, as used by \<open>if (x)\<close>, \<open>!x\<close>, \<open>x ? a : b\<close> and \<open>x || y\<close>.\<close>

fun truthy :: "jsval \<Rightarrow> bool" where
  "truthy JUndefined = False"
| "truthy JNull = False"
| "truthy (JBool b) = b"
| "truthy (JNum n) = (n \<noteq> 0)"
| "truthy (JStr s) = (s \<noteq> [])"
| "truthy (JArr xs) = True"
| "truthy (JObj m) = True"

text \<open>Reading a property: a missing property reads as \<open>undefined\<close>.\<close>

definition getprop :: "obj \<Rightarrow> string \<Rightarrow> jsval" where
  "getprop m k = (case m k of None \<Rightarrow> JUndefined | Some v \<Rightarrow> v)"

text \<open>
  \<open>Object.assign(target, source)\<close> copies every own property of the source onto the
  target, later sources overriding earlier ones.
\<close>

definition object_assign :: "obj \<Rightarrow> obj list \<Rightarrow> obj" where
  "object_assign target sources = foldl (++) target sources"

section \<open>What the module imports\<close>

text \<open>
  The generated schema parsers and \<open>createTabData\<close> are imported by the module and
  are parameters of the model. \<open>safeParse\<close> never throws: it returns either the
  error or the parsed data. The parsed data have the types the module's annotations give
  them: a protections status and a consent status are objects, the locale settings carry
  a string \<open>locale\<close>, and \<open>createTabData\<close> returns an object.
\<close>

datatype zod_error = ZodError string

record deps =
  requestDataSchema :: "jsval \<Rightarrow> zod_error + jsval"
  protectionsStatusSchema :: "jsval \<Rightarrow> zod_error + obj"
  localeSettingsSchema :: "jsval \<Rightarrow> zod_error + string"
  cookiePromptManagementStatusSchema :: "jsval \<Rightarrow> zod_error + obj"
  createTabData :: "string \<Rightarrow> jsval \<Rightarrow> obj \<Rightarrow> jsval \<Rightarrow> obj"

section \<open>The module state\<close>

text \<open>
  The module-level variables. A resolver in \<open>getBackgroundTabDataPromises\<close> is
  identified by the number of the promise it settles; \<open>channel\<close> is \<open>None\<close> while
  it is \<open>null\<close>.
\<close>

record state =
  channel :: "nat option"
  getBackgroundTabDataPromises :: "nat list"
  trackerBlockingData :: "obj option"
  permissionsData :: jsval
  certificateData :: jsval
  upgradedHttps :: jsval
  protections :: "obj option"
  isPendingUpdates :: jsval
  parentEntity :: jsval
  cookiePromptManagementStatus :: obj
  locale_v :: "string option"

definition initial :: state where
  "initial = \<lparr> channel = None, getBackgroundTabDataPromises = [],
     trackerBlockingData = None, permissionsData = JUndefined,
     certificateData = JUndefined, upgradedHttps = JUndefined, protections = None,
     isPendingUpdates = JUndefined, parentEntity = JUndefined,
     cookiePromptManagementStatus = Map.empty, locale_v = None \<rparr>"

text \<open>What a call does besides changing the state, in the order it happens.\<close>

datatype console_arg = Text string | Err zod_error

datatype event =
    Resolve nat jsval
  | ChannelSend nat string
  | ConsoleError console_arg
  | ConsoleLog console_arg
  | ConsoleWarn console_arg
  | PostMessage string jsval

datatype error = Error string | TypeError string | Invariant string

text \<open>
  The outcome of a call: the state it leaves, its effects, and the error it threw, if
  any. A call that throws still returns the state it had reached.
\<close>

record 's outcome =
  st :: 's
  effects :: "event list"
  thrown :: "error option"

definition backgroundMessage :: "nat \<Rightarrow> state \<Rightarrow> state" where
  "backgroundMessage backgroundModel s = s\<lparr>channel := Some backgroundModel\<rparr>"

definition channel_send :: "state \<Rightarrow> string \<Rightarrow> event list" where
  "channel_send s msg = (case channel s of None \<Rightarrow> [] | Some c \<Rightarrow> [ChannelSend c msg])"

definition opt_str :: "string option \<Rightarrow> jsval" where
  "opt_str x = (case x of None \<Rightarrow> JUndefined | Some l \<Rightarrow> JStr l)"

text \<open>
  \<open>combineSources\<close> builds a new object on every call. The model gives its content
  at the moment of the call. All its properties are copied then, with one exception: the
  property \<open>cookiePromptManagementStatus\<close> holds the module's one accumulator object
  itself, which \<open>onChangeConsentManaged\<close> changes in place; what a snapshot reads
  as later is given by \<open>snapshot_read\<close> below.
\<close>

definition combineSources :: "state \<Rightarrow> jsval" where
  "combineSources s =
     JObj [''tab'' \<mapsto> JObj (object_assign Map.empty
       [ (case trackerBlockingData s of None \<Rightarrow> Map.empty | Some t \<Rightarrow> t),
         [''isPendingUpdates'' \<mapsto> isPendingUpdates s,
          ''parentEntity'' \<mapsto> parentEntity s,
          ''cookiePromptManagementStatus'' \<mapsto> JObj (cookiePromptManagementStatus s),
          ''platformLimitations'' \<mapsto> JBool True,
          ''locale'' \<mapsto> opt_str (locale_v s)],
         (if truthy (permissionsData s) then [''permissions'' \<mapsto> permissionsData s]
          else Map.empty),
         (if truthy (certificateData s) then [''certificate'' \<mapsto> certificateData s]
          else Map.empty) ])]"

definition resolveInitialRender :: "state \<Rightarrow> event list" where
  "resolveInitialRender s =
     (let isUpgradedHttpsSet = (typeof (upgradedHttps s) = ''boolean'');
          isIsProtectedSet = (protections s \<noteq> None);
          isTrackerBlockingDataSet = (trackerBlockingData s \<noteq> None);
          isLocaleSet = (locale_v s \<noteq> None)
      in if \<not> isLocaleSet \<or> \<not> isUpgradedHttpsSet \<or> \<not> isIsProtectedSet
            \<or> \<not> isTrackerBlockingDataSet
         then []
         else map (\<lambda>resolve. Resolve resolve (combineSources s))
                (getBackgroundTabDataPromises s)
              @ channel_send s ''updateTabData'')"

section \<open>The entry points the host calls\<close>

definition onChangeRequestData :: "deps \<Rightarrow> string \<Rightarrow> jsval \<Rightarrow> state \<Rightarrow> state outcome" where
  "onChangeRequestData D tabUrl rawRequestData s =
     (let requestData = requestDataSchema D rawRequestData in
      case protections s of
        None \<Rightarrow> \<lparr> st = s, effects = [],
                  thrown = Some (Error ''protections status not set'') \<rparr>
      | Some p \<Rightarrow>
          (case requestData of
             Inl e \<Rightarrow>
               \<lparr> st = s,
                 effects =
                   [ConsoleError
                      (Text ''could not parse incoming request data from `onChangeRequestData`''),
                    ConsoleLog (Err e)],
                 thrown = None \<rparr>
           | Inr data \<Rightarrow>
               (let s' = s\<lparr>trackerBlockingData :=
                            Some (createTabData D tabUrl (upgradedHttps s) p data)\<rparr>
                in \<lparr> st = s', effects = resolveInitialRender s', thrown = None \<rparr>)))"

definition onChangeProtectionStatus :: "deps \<Rightarrow> jsval \<Rightarrow> state \<Rightarrow> state outcome" where
  "onChangeProtectionStatus D protectionsStatus s =
     (case protectionsStatusSchema D protectionsStatus of
        Inl e \<Rightarrow>
          \<lparr> st = s,
            effects =
              [ConsoleError
                 (Text ''could not parse incoming protection status from onChangeProtectionStatus''),
               ConsoleError (Err e)],
            thrown = None \<rparr>
      | Inr data \<Rightarrow>
          (let s' = s\<lparr>protections := Some data\<rparr>
           in \<lparr> st = s', effects = resolveInitialRender s', thrown = None \<rparr>))"

definition onChangeLocale :: "deps \<Rightarrow> jsval \<Rightarrow> state \<Rightarrow> state outcome" where
  "onChangeLocale D payload s =
     (case localeSettingsSchema D payload of
        Inl e \<Rightarrow>
          \<lparr> st = s,
            effects =
              [ConsoleError (Text ''could not parse incoming data from onChangeLocale''),
               ConsoleError (Err e)],
            thrown = None \<rparr>
      | Inr l \<Rightarrow>
          (let s' = s\<lparr>locale_v := Some l\<rparr>
           in \<lparr> st = s', effects = channel_send s' ''updateTabData'', thrown = None \<rparr>))"

definition onChangeConsentManaged :: "deps \<Rightarrow> jsval \<Rightarrow> state \<Rightarrow> state outcome" where
  "onChangeConsentManaged D payload s =
     (case cookiePromptManagementStatusSchema D payload of
        Inl e \<Rightarrow>
          \<lparr> st = s,
            effects =
              [ConsoleError (Text ''could not parse incoming data from onChangeConsentManaged''),
               ConsoleError (Err e)],
            thrown = None \<rparr>
      | Inr data \<Rightarrow>
          (let s' = s\<lparr>cookiePromptManagementStatus :=
                       object_assign (cookiePromptManagementStatus s) [data]\<rparr>
           in \<lparr> st = s', effects = channel_send s' ''updateTabData'', thrown = None \<rparr>))"

text \<open>The handlers that \<open>setupShared\<close> defines in place.\<close>

definition onChangeAllowedPermissions :: "jsval \<Rightarrow> state \<Rightarrow> state outcome" where
  "onChangeAllowedPermissions data s =
     (let s' = s\<lparr>permissionsData := data\<rparr>
      in \<lparr> st = s', effects = channel_send s' ''updateTabData'', thrown = None \<rparr>)"

definition onChangeUpgradedHttps :: "jsval \<Rightarrow> state \<Rightarrow> state outcome" where
  "onChangeUpgradedHttps data s =
     (let s1 = s\<lparr>upgradedHttps := data\<rparr>;
          s2 = (case trackerBlockingData s1 of
                  None \<Rightarrow> s1
                | Some t \<Rightarrow>
                    s1\<lparr>trackerBlockingData := Some (t(''upgradedHttps'' \<mapsto> upgradedHttps s1))\<rparr>)
      in \<lparr> st = s2, effects = resolveInitialRender s2, thrown = None \<rparr>)"

text \<open>
  \<open>data.secCertificateViewModels\<close> throws a TypeError when \<open>data\<close> is
  \<open>undefined\<close> or \<open>null\<close>, and reads as \<open>undefined\<close> on any other value that
  is not an object with that property.
\<close>

definition onChangeCertificateData :: "jsval \<Rightarrow> state \<Rightarrow> state outcome" where
  "onChangeCertificateData data s =
     (case data of
        JUndefined \<Rightarrow>
          \<lparr> st = s, effects = [],
            thrown = Some (TypeError ''cannot read properties of undefined'') \<rparr>
      | JNull \<Rightarrow>
          \<lparr> st = s, effects = [],
            thrown = Some (TypeError ''cannot read properties of null'') \<rparr>
      | _ \<Rightarrow>
          (let s' = s\<lparr>certificateData :=
                       (case data of JObj m \<Rightarrow> getprop m ''secCertificateViewModels''
                        | _ \<Rightarrow> JUndefined)\<rparr>
           in \<lparr> st = s', effects = channel_send s' ''updateTabData'', thrown = None \<rparr>))"

definition onIsPendingUpdates :: "jsval \<Rightarrow> state \<Rightarrow> state outcome" where
  "onIsPendingUpdates data s =
     (let s' = s\<lparr>isPendingUpdates := data\<rparr>
      in \<lparr> st = s', effects = channel_send s' ''updateTabData'', thrown = None \<rparr>)"

definition onChangeParentEntity :: "jsval \<Rightarrow> state \<Rightarrow> state outcome" where
  "onChangeParentEntity data s =
     (let s' = s\<lparr>parentEntity := data\<rparr>
      in \<lparr> st = s', effects = channel_send s' ''updateTabData'', thrown = None \<rparr>)"

text \<open>
  \<open>getBackgroundTabData\<close> creates a promise, here numbered \<open>resolve\<close>, and either
  resolves it at once or queues its resolver.
\<close>

definition getBackgroundTabData :: "nat \<Rightarrow> state \<Rightarrow> state outcome" where
  "getBackgroundTabData resolve s =
     (if trackerBlockingData s \<noteq> None
      then \<lparr> st = s, effects = [Resolve resolve (combineSources s)], thrown = None \<rparr>
      else \<lparr> st = s\<lparr>getBackgroundTabDataPromises :=
                       getBackgroundTabDataPromises s @ [resolve]\<rparr>,
             effects = [], thrown = None \<rparr>)"

text \<open>
  The calls a host can make on the functions that \<open>setupShared\<close> puts on
  \<open>window\<close>, and a sequence of such calls. A call that throws fails on the host's
  side; the next call finds the state the failed one left.
\<close>

datatype update =
    RequestData string jsval
  | ProtectionStatus jsval
  | Locale jsval
  | ConsentManaged jsval
  | AllowedPermissions jsval
  | UpgradedHttps jsval
  | CertificateData jsval
  | IsPendingUpdates jsval
  | ParentEntity jsval

fun deliver :: "deps \<Rightarrow> update \<Rightarrow> state \<Rightarrow> state outcome" where
  "deliver D (RequestData tabUrl raw) s = onChangeRequestData D tabUrl raw s"
| "deliver D (ProtectionStatus raw) s = onChangeProtectionStatus D raw s"
| "deliver D (Locale raw) s = onChangeLocale D raw s"
| "deliver D (ConsentManaged raw) s = onChangeConsentManaged D raw s"
| "deliver D (AllowedPermissions data) s = onChangeAllowedPermissions data s"
| "deliver D (UpgradedHttps data) s = onChangeUpgradedHttps data s"
| "deliver D (CertificateData data) s = onChangeCertificateData data s"
| "deliver D (IsPendingUpdates data) s = onIsPendingUpdates data s"
| "deliver D (ParentEntity data) s = onChangeParentEntity data s"

fun run :: "deps \<Rightarrow> update list \<Rightarrow> state \<Rightarrow> state" where
  "run D [] s = s"
| "run D (u # us) s = run D us (st (deliver D u s))"

fun trace :: "deps \<Rightarrow> update list \<Rightarrow> state \<Rightarrow> event list" where
  "trace D [] s = []"
| "trace D (u # us) s = effects (deliver D u s) @ trace D us (st (deliver D u s))"

section \<open>Reading outcomes\<close>

text \<open>The resolvers a list of effects calls, in order.\<close>

fun resolved :: "event list \<Rightarrow> nat list" where
  "resolved [] = []"
| "resolved (Resolve r v # es) = r # resolved es"
| "resolved (e # es) = resolved es"

text \<open>
  The condition under which \<open>resolveInitialRender\<close> goes past its early return: the
  four variables it tests are all set.
\<close>

definition ready :: "state \<Rightarrow> bool" where
  "ready s \<longleftrightarrow> locale_v s \<noteq> None \<and> typeof (upgradedHttps s) = ''boolean''
     \<and> protections s \<noteq> None \<and> trackerBlockingData s \<noteq> None"

text \<open>
  A promise settles at most once: calling its resolver settles it when it is pending and
  does nothing afterwards. \<open>settle\<close> applies one effect to the settled values of the
  promises, \<open>None\<close> standing for a pending promise.
\<close>

fun settle :: "event \<Rightarrow> (nat \<Rightarrow> jsval option) \<Rightarrow> (nat \<Rightarrow> jsval option)" where
  "settle (Resolve r v) m = (if m r = None then m(r \<mapsto> v) else m)"
| "settle e m = m"

text \<open>The \<open>tab\<close> property of a snapshot.\<close>

definition snapshot_tab :: "jsval \<Rightarrow> obj" where
  "snapshot_tab v =
     (case v of
        JObj m \<Rightarrow> (case m ''tab'' of Some (JObj t) \<Rightarrow> t | _ \<Rightarrow> Map.empty)
      | _ \<Rightarrow> Map.empty)"

section \<open>The tab data\<close>

text \<open>
  Modelled from the spec: \<open>createTabData\<close> of \<open>utils/request-details.mjs\<close> is
  imported by the module and is not among the sources. The specification describes its
  result as a structured record for the current page, built from a validated request-data
  payload and the already known \<open>upgradedHttps\<close> and \<open>protections\<close> values,
  holding the page, the request list, the protection state at capture time and the
  recorded \<open>upgradedHttps\<close> value. It does not say how the domain is derived from
  the tab URL, so the model records the URL itself.
\<close>

definition createTabData_spec :: "string \<Rightarrow> jsval \<Rightarrow> obj \<Rightarrow> jsval \<Rightarrow> obj" where
  "createTabData_spec tabUrl upgraded prot requestData =
     [''url'' \<mapsto> JStr tabUrl,
      ''upgradedHttps'' \<mapsto> upgraded,
      ''protections'' \<mapsto> JObj prot,
      ''requestDetails'' \<mapsto> requestData]"

text \<open>
  An instance of the imports for the closed examples: each parser accepts the objects
  (for the locale settings, the objects whose \<open>locale\<close> is a string) and rejects
  every other value.
\<close>

definition example_object_schema :: "jsval \<Rightarrow> zod_error + obj" where
  "example_object_schema v =
     (case v of JObj m \<Rightarrow> Inr m | _ \<Rightarrow> Inl (ZodError ''expected object''))"

definition example_locale_schema :: "jsval \<Rightarrow> zod_error + string" where
  "example_locale_schema v =
     (case v of
        JObj m \<Rightarrow>
          (case m ''locale'' of Some (JStr l) \<Rightarrow> Inr l
           | _ \<Rightarrow> Inl (ZodError ''expected string''))
      | _ \<Rightarrow> Inl (ZodError ''expected object''))"

definition example_deps :: deps where
  "example_deps =
     \<lparr> requestDataSchema =
         (\<lambda>v. case v of JObj m \<Rightarrow> Inr v | _ \<Rightarrow> Inl (ZodError ''expected object'')),
       protectionsStatusSchema = example_object_schema,
       localeSettingsSchema = example_locale_schema,
       cookiePromptManagementStatusSchema = example_object_schema,
       createTabData = createTabData_spec \<rparr>"

section \<open>Outgoing messages\<close>

text \<open>
  What the module reads and writes on \<open>window\<close>: the names of the handlers under
  \<open>window.webkit.messageHandlers\<close> (\<open>None\<close> when \<open>window.webkit\<close> or its
  \<open>messageHandlers\<close> is missing), whether \<open>window.__playwright\<close> is set, and
  the reply handler \<open>window.onGetToggleReportOptionsResponse\<close>, which is either
  absent or the closure holding the resolver of one promise.
\<close>

record window =
  messageHandlers :: "string set option"
  playwright :: bool
  onGetToggleReportOptionsResponse :: "nat option"

definition has_handler :: "window \<Rightarrow> string \<Rightarrow> bool" where
  "has_handler w name = (case messageHandlers w of None \<Rightarrow> False | Some hs \<Rightarrow> name \<in> hs)"

definition failed :: "window \<Rightarrow> error \<Rightarrow> window outcome" where
  "failed w e = \<lparr> st = w, effects = [], thrown = Some e \<rparr>"

text \<open>
  \<open>window.webkit.messageHandlers[name].postMessage(params)\<close>; reading
  \<open>postMessage\<close> of a missing handler is a TypeError.
\<close>

definition postMessage :: "string \<Rightarrow> jsval \<Rightarrow> window \<Rightarrow> window outcome" where
  "postMessage name params w =
     (if has_handler w name
      then \<lparr> st = w, effects = [PostMessage name params], thrown = None \<rparr>
      else failed w (TypeError ''cannot read properties of undefined (reading postMessage)''))"

definition privacyDashboardSetProtection :: "jsval \<Rightarrow> window \<Rightarrow> window outcome" where
  "privacyDashboardSetProtection params w =
     (if \<not> has_handler w ''privacyDashboardSetProtection''
      then failed w (Invariant ''webkit.messageHandlers.privacyDashboardSetProtection required'')
      else postMessage ''privacyDashboardSetProtection'' params w)"

definition privacyDashboardSetPermission :: "jsval \<Rightarrow> window \<Rightarrow> window outcome" where
  "privacyDashboardSetPermission params w =
     (if messageHandlers w = None
      then failed w (Invariant ''webkit.messageHandlers required'')
      else postMessage ''privacyDashboardSetPermission'' params w)"

text \<open>
  The promise that \<open>privacyDashboardGetToggleReportOptions\<close> returns is numbered
  \<open>resolve\<close>. An error thrown inside its executor rejects the promise; the reply
  handler is installed only when both checks pass and the message is posted.
\<close>

definition privacyDashboardGetToggleReportOptions :: "nat \<Rightarrow> window \<Rightarrow> window outcome" where
  "privacyDashboardGetToggleReportOptions resolve w =
     (if messageHandlers w = None
      then failed w (Invariant ''webkit.messageHandlers required'')
      else if \<not> has_handler w ''privacyDashboardGetToggleReportOptions''
      then failed w (Invariant ''privacyDashboardGetToggleReportOptions required'')
      else \<lparr> st = w\<lparr>onGetToggleReportOptionsResponse := Some resolve\<rparr>,
             effects = [PostMessage ''privacyDashboardGetToggleReportOptions'' (JObj Map.empty)],
             thrown = None \<rparr>)"

text \<open>
  The host replies by evaluating \<open>window.onGetToggleReportOptionsResponse(data)\<close>.
  The handler resolves its promise and deletes itself from \<open>window\<close>; when no
  handler is installed the call is a TypeError on the host's side.
\<close>

definition reply_onGetToggleReportOptionsResponse :: "jsval \<Rightarrow> window \<Rightarrow> window outcome" where
  "reply_onGetToggleReportOptionsResponse data w =
     (case onGetToggleReportOptionsResponse w of
        None \<Rightarrow>
          failed w (TypeError ''window.onGetToggleReportOptionsResponse is not a function'')
      | Some resolve \<Rightarrow>
          \<lparr> st = w\<lparr>onGetToggleReportOptionsResponse := None\<rparr>,
            effects = [Resolve resolve data], thrown = None \<rparr>)"

definition privacyDashboardSendToggleReport :: "window \<Rightarrow> window outcome" where
  "privacyDashboardSendToggleReport w =
     (if messageHandlers w = None
      then failed w (Invariant ''webkit.messageHandlers required'')
      else if \<not> has_handler w ''privacyDashboardSendToggleReport''
      then failed w (Invariant ''privacyDashboardSendToggleReport required'')
      else postMessage ''privacyDashboardSendToggleReport'' (JObj Map.empty) w)"

definition privacyDashboardRejectToggleReport :: "window \<Rightarrow> window outcome" where
  "privacyDashboardRejectToggleReport w =
     (if messageHandlers w = None
      then failed w (Invariant ''webkit.messageHandlers required'')
      else if \<not> has_handler w ''privacyDashboardRejectToggleReport''
      then failed w (Invariant ''privacyDashboardRejectToggleReport required'')
      else postMessage ''privacyDashboardRejectToggleReport'' (JObj Map.empty) w)"

definition privacyDashboardSeeWhatIsSent :: "window \<Rightarrow> window outcome" where
  "privacyDashboardSeeWhatIsSent w =
     (if messageHandlers w = None
      then failed w (Invariant ''webkit.messageHandlers required'')
      else if \<not> has_handler w ''privacyDashboardSeeWhatIsSent''
      then failed w (Invariant ''privacyDashboardSeeWhatIsSent required'')
      else postMessage ''privacyDashboardSeeWhatIsSent'' (JObj Map.empty) w)"

definition privacyDashboardClose :: "jsval \<Rightarrow> window \<Rightarrow> window outcome" where
  "privacyDashboardClose args w =
     (if messageHandlers w = None
      then failed w (Invariant ''webkit.messageHandlers required'')
      else postMessage ''privacyDashboardClose'' args w)"

definition privacyDashboardOpenSettings :: "obj \<Rightarrow> window \<Rightarrow> window outcome" where
  "privacyDashboardOpenSettings args w =
     (if messageHandlers w = None
      then failed w (Invariant ''webkit.messageHandlers required'')
      else postMessage ''privacyDashboardOpenSettings''
             (JObj [''target'' \<mapsto> getprop args ''target'']) w)"

definition privacyDashboardSubmitBrokenSiteReport :: "obj \<Rightarrow> window \<Rightarrow> window outcome" where
  "privacyDashboardSubmitBrokenSiteReport report w =
     (if messageHandlers w = None
      then failed w (Invariant ''webkit.messageHandlers required'')
      else postMessage ''privacyDashboardSubmitBrokenSiteReport''
             (JObj [''category'' \<mapsto> getprop report ''category'',
                    ''description'' \<mapsto> getprop report ''description'']) w)"

text \<open>
  The messages \<open>fetch\<close> tells apart by their class, with the fields it reads
  (\<open>eventOrigin\<close>; \<open>category\<close> and \<open>description\<close>; \<open>lists\<close> and
  \<open>eventOrigin\<close>; \<open>target\<close>; \<open>id\<close> and \<open>value\<close>), and any other
  message.
\<close>

datatype message =
    CloseMessage jsval
  | SubmitBrokenSiteReportMessage jsval jsval
  | SetListsMessage "obj list" jsval
  | OpenSettingsMessages jsval
  | UpdatePermissionMessage jsval jsval
  | FetchToggleReportOptions
  | SendToggleBreakageReport
  | RejectToggleBreakageReport
  | SeeWhatIsSent
  | OtherMessage

text \<open>
  The loop of \<open>fetch\<close> over the entries of a \<open>SetListsMessage\<close>. An entry whose
  \<open>list\<close> is not the string \<open>allowlisted\<close> is skipped with a warning (no
  warning under Playwright); \<open>isProtected\<close> is \<open>value === false\<close>. An error
  thrown by \<open>privacyDashboardSetProtection\<close> ends the loop.
\<close>

fun fetch_lists :: "jsval \<Rightarrow> obj list \<Rightarrow> window \<Rightarrow> window outcome" where
  "fetch_lists origin [] w = \<lparr> st = w, effects = [], thrown = None \<rparr>"
| "fetch_lists origin (listItem # rest) w =
     (let list = getprop listItem ''list'';
          val = getprop listItem ''value''
      in if list \<noteq> JStr ''allowlisted''
         then (let r = fetch_lists origin rest w
               in r\<lparr>effects :=
                     (if playwright w then []
                      else [ConsoleWarn (Text ''only `allowlisted` is currently supported on macos'')])
                     @ effects r\<rparr>)
         else (let isProtected = (val = JBool False);
                   r1 = privacyDashboardSetProtection
                          (JObj [''eventOrigin'' \<mapsto> origin,
                                 ''isProtected'' \<mapsto> JBool isProtected]) w
               in case thrown r1 of
                    Some e \<Rightarrow> r1
                  | None \<Rightarrow>
                      (let r = fetch_lists origin rest (st r1)
                       in r\<lparr>effects := effects r1 @ effects r\<rparr>)))"

text \<open>
  \<open>fetch\<close> up to its first suspension. \<open>resolve\<close> numbers the promise that a
  \<open>FetchToggleReportOptions\<close> message creates; what \<open>fetch\<close> does with the
  reply once that promise has settled (parsing it) is not part of the model. An error
  thrown here rejects the promise that \<open>fetch\<close> returns.
\<close>

fun fetch :: "nat \<Rightarrow> message \<Rightarrow> window \<Rightarrow> window outcome" where
  "fetch resolve (CloseMessage origin) w =
     privacyDashboardClose (JObj [''eventOrigin'' \<mapsto> origin]) w"
| "fetch resolve (SubmitBrokenSiteReportMessage cat desc) w =
     privacyDashboardSubmitBrokenSiteReport [''category'' \<mapsto> cat, ''description'' \<mapsto> desc] w"
| "fetch resolve (SetListsMessage ls origin) w = fetch_lists origin ls w"
| "fetch resolve (OpenSettingsMessages tgt) w =
     privacyDashboardOpenSettings [''target'' \<mapsto> tgt] w"
| "fetch resolve (UpdatePermissionMessage ident v) w =
     privacyDashboardSetPermission (JObj [''permission'' \<mapsto> ident, ''value'' \<mapsto> v]) w"
| "fetch resolve FetchToggleReportOptions w = privacyDashboardGetToggleReportOptions resolve w"
| "fetch resolve SendToggleBreakageReport w = privacyDashboardSendToggleReport w"
| "fetch resolve RejectToggleBreakageReport w = privacyDashboardRejectToggleReport w"
| "fetch resolve SeeWhatIsSent w = privacyDashboardSeeWhatIsSent w"
| "fetch resolve OtherMessage w = \<lparr> st = w, effects = [], thrown = None \<rparr>"

text \<open>The messages a list of effects posts to the host, in order.\<close>

fun posted :: "event list \<Rightarrow> (string \<times> jsval) list" where
  "posted [] = []"
| "posted (PostMessage name params # es) = (name, params) # posted es"
| "posted (e # es) = posted es"

text \<open>
  A sequence of calls across the bridge for the toggle-report options: a request (with the
  number of its promise) or a reply of the host.
\<close>

datatype bridge_call = Request nat | Reply jsval

fun bridge_step :: "bridge_call \<Rightarrow> window \<Rightarrow> window outcome" where
  "bridge_step (Request resolve) w = privacyDashboardGetToggleReportOptions resolve w"
| "bridge_step (Reply data) w = reply_onGetToggleReportOptionsResponse data w"

fun bridge_trace :: "bridge_call list \<Rightarrow> window \<Rightarrow> event list" where
  "bridge_trace [] w = []"
| "bridge_trace (c # cs) w = effects (bridge_step c w) @ bridge_trace cs (st (bridge_step c w))"

fun bridge_run :: "bridge_call list \<Rightarrow> window \<Rightarrow> window" where
  "bridge_run [] w = w"
| "bridge_run (c # cs) w = bridge_run cs (st (bridge_step c w))"

text \<open>The promises a sequence of calls creates, in order.\<close>

fun requests :: "bridge_call list \<Rightarrow> nat list" where
  "requests [] = []"
| "requests (Request r # cs) = r # requests cs"
| "requests (Reply d # cs) = requests cs"

definition example_window :: window where
  "example_window =
     \<lparr> messageHandlers =
         Some {''privacyDashboardSetProtection'', ''privacyDashboardGetToggleReportOptions''},
       playwright = False,
       onGetToggleReportOptionsResponse = None \<rparr>"

text \<open>The inputs of the closed examples.\<close>

definition example_protections :: jsval where
  "example_protections = JObj [''allowlisted'' \<mapsto> JBool False]"

definition example_requestData :: jsval where
  "example_requestData = JObj [''requests'' \<mapsto> JArr []]"

definition example_locale :: jsval where
  "example_locale = JObj [''locale'' \<mapsto> JStr ''en'']"

definition example_waiting :: state where
  "example_waiting = st (getBackgroundTabData 0 initial)"

section \<open>The first render\<close>






section \<open>Unfolding and evaluation\<close>

lemmas handler_defs =
  onChangeRequestData_def onChangeProtectionStatus_def onChangeLocale_def
  onChangeConsentManaged_def onChangeAllowedPermissions_def onChangeUpgradedHttps_def
  onChangeCertificateData_def onIsPendingUpdates_def onChangeParentEntity_def

lemmas example_defs =
  example_deps_def example_object_schema_def example_locale_schema_def
  example_protections_def example_requestData_def example_locale_def initial_def

lemmas eval_defs = handler_defs example_defs resolveInitialRender_def channel_send_def Let_def

section \<open>Resolving and settling\<close>

lemma resolved_append: "resolved (xs @ ys) = resolved xs @ resolved ys"
  by (induction xs rule: resolved.induct) simp_all

lemma resolved_map_Resolve: "resolved (map (\<lambda>r. Resolve r v) rs) = rs"
  by (induction rs) simp_all

lemma resolved_channel_send: "resolved (channel_send s msg) = []"
  by (simp add: channel_send_def split: option.split)

lemma resolveInitialRender_ready:
  "ready s \<Longrightarrow> resolveInitialRender s =
     map (\<lambda>r. Resolve r (combineSources s)) (getBackgroundTabDataPromises s)
     @ channel_send s ''updateTabData''"
  by (simp add: resolveInitialRender_def ready_def)

lemma resolveInitialRender_not_ready: "\<not> ready s \<Longrightarrow> resolveInitialRender s = []"
  by (auto simp add: resolveInitialRender_def ready_def Let_def)

lemma resolved_resolveInitialRender:
  "resolved (resolveInitialRender s) = (if ready s then getBackgroundTabDataPromises s else [])"
  by (simp add: resolveInitialRender_ready resolveInitialRender_not_ready resolved_append
      resolved_map_Resolve resolved_channel_send)

lemma deliver_resolves_only_when_ready:
  "resolved (effects (deliver D u s)) \<noteq> [] \<Longrightarrow> ready (st (deliver D u s))"
  by (cases u)
    (auto simp add: onChangeRequestData_def onChangeProtectionStatus_def onChangeLocale_def
      onChangeConsentManaged_def onChangeAllowedPermissions_def onChangeUpgradedHttps_def
      onChangeCertificateData_def onIsPendingUpdates_def onChangeParentEntity_def
      resolved_resolveInitialRender resolved_channel_send Let_def
      split: option.splits sum.splits if_splits jsval.splits)







lemma run_append: "run D (us @ vs) s = run D vs (run D us s)"
  by (induction us arbitrary: s) simp_all








section \<open>The readiness gate\<close>

text \<open>
  C1, as stated, fails. \<open>getBackgroundTabData\<close> resolves at once as soon as
  \<open>trackerBlockingData\<close> is set: after a protections status and a request-data
  delivery alone it hands out a snapshot although \<open>upgradedHttps\<close> and the locale
  are still unset. And when the locale arrives last, all four variables are set and the
  queued resolver has still not been called: \<open>onChangeLocale\<close> does not call
  \<open>resolveInitialRender\<close>.
\<close>

theorem readiness_gate_counterexample:
  "effects (getBackgroundTabData 0
      (run example_deps
         [ProtectionStatus example_protections,
          RequestData ''https://example.com'' example_requestData] initial))
     = [Resolve 0 (combineSources
         (run example_deps
            [ProtectionStatus example_protections,
             RequestData ''https://example.com'' example_requestData] initial))]
   \<and> upgradedHttps
        (run example_deps
           [ProtectionStatus example_protections,
            RequestData ''https://example.com'' example_requestData] initial) = JUndefined
   \<and> locale_v
        (run example_deps
           [ProtectionStatus example_protections,
            RequestData ''https://example.com'' example_requestData] initial) = None
   \<and> ready
        (run example_deps
           [UpgradedHttps (JBool False), ProtectionStatus example_protections,
            RequestData ''https://example.com'' example_requestData, Locale example_locale]
           (st (getBackgroundTabData 0 initial)))
   \<and> getBackgroundTabDataPromises
        (run example_deps
           [UpgradedHttps (JBool False), ProtectionStatus example_protections,
            RequestData ''https://example.com'' example_requestData, Locale example_locale]
           (st (getBackgroundTabData 0 initial))) = [0]
   \<and> resolved
        (trace example_deps
           [UpgradedHttps (JBool False), ProtectionStatus example_protections,
            RequestData ''https://example.com'' example_requestData, Locale example_locale]
           (st (getBackgroundTabData 0 initial))) = []"
  by (simp add: eval_defs ready_def getBackgroundTabData_def example_waiting_def)

text \<open>
  C1, amended. No call of the host resolves a queued resolver unless all four variables
  are set once the call has run. A request-data delivery that is applied (protections
  set, payload valid), a valid protections status and an \<open>upgradedHttps\<close> update
  that leave all four set call every queued resolver with the snapshot combined from the
  state they leave, and then notify the channel. \<open>getBackgroundTabData\<close> itself
  resolves at once exactly when \<open>trackerBlockingData\<close> is set, and queues its
  resolver otherwise.
\<close>

theorem readiness_gate_amended:
  "(resolved (effects (deliver D u s)) \<noteq> [] \<longrightarrow> ready (st (deliver D u s)))
   \<and> (protections s \<noteq> None \<and> requestDataSchema D raw = Inr data
        \<and> ready (st (onChangeRequestData D tabUrl raw s)) \<longrightarrow>
      effects (onChangeRequestData D tabUrl raw s)
        = map (\<lambda>r. Resolve r (combineSources (st (onChangeRequestData D tabUrl raw s))))
            (getBackgroundTabDataPromises s) @ channel_send s ''updateTabData'')
   \<and> (protectionsStatusSchema D raw' = Inr p
        \<and> ready (st (onChangeProtectionStatus D raw' s)) \<longrightarrow>
      effects (onChangeProtectionStatus D raw' s)
        = map (\<lambda>r. Resolve r (combineSources (st (onChangeProtectionStatus D raw' s))))
            (getBackgroundTabDataPromises s) @ channel_send s ''updateTabData'')
   \<and> (ready (st (onChangeUpgradedHttps b s)) \<longrightarrow>
      effects (onChangeUpgradedHttps b s)
        = map (\<lambda>r. Resolve r (combineSources (st (onChangeUpgradedHttps b s))))
            (getBackgroundTabDataPromises s) @ channel_send s ''updateTabData'')
   \<and> effects (getBackgroundTabData r s)
        = (if trackerBlockingData s \<noteq> None then [Resolve r (combineSources s)] else [])
   \<and> getBackgroundTabDataPromises (st (getBackgroundTabData r s))
        = (if trackerBlockingData s \<noteq> None then getBackgroundTabDataPromises s
           else getBackgroundTabDataPromises s @ [r])"
proof (intro conjI impI)
  assume "resolved (effects (deliver D u s)) \<noteq> []"
  then show "ready (st (deliver D u s))" by (rule deliver_resolves_only_when_ready)
next
  assume a: "protections s \<noteq> None \<and> requestDataSchema D raw = Inr data
        \<and> ready (st (onChangeRequestData D tabUrl raw s))"
  then obtain p where p: "protections s = Some p" by auto
  let ?s' = "s\<lparr>trackerBlockingData := Some (createTabData D tabUrl (upgradedHttps s) p data)\<rparr>"
  from a p have st: "st (onChangeRequestData D tabUrl raw s) = ?s'"
    and ef: "effects (onChangeRequestData D tabUrl raw s) = resolveInitialRender ?s'"
    by (simp_all add: onChangeRequestData_def Let_def)
  from a st have "ready ?s'" by simp
  then show "effects (onChangeRequestData D tabUrl raw s)
        = map (\<lambda>r. Resolve r (combineSources (st (onChangeRequestData D tabUrl raw s))))
            (getBackgroundTabDataPromises s) @ channel_send s ''updateTabData''"
    unfolding st ef by (simp add: resolveInitialRender_ready channel_send_def)
next
  assume a: "protectionsStatusSchema D raw' = Inr p
        \<and> ready (st (onChangeProtectionStatus D raw' s))"
  let ?s' = "s\<lparr>protections := Some p\<rparr>"
  from a have st: "st (onChangeProtectionStatus D raw' s) = ?s'"
    and ef: "effects (onChangeProtectionStatus D raw' s) = resolveInitialRender ?s'"
    by (simp_all add: onChangeProtectionStatus_def Let_def)
  from a st have "ready ?s'" by simp
  then show "effects (onChangeProtectionStatus D raw' s)
        = map (\<lambda>r. Resolve r (combineSources (st (onChangeProtectionStatus D raw' s))))
            (getBackgroundTabDataPromises s) @ channel_send s ''updateTabData''"
    unfolding st ef by (simp add: resolveInitialRender_ready channel_send_def)
next
  assume a: "ready (st (onChangeUpgradedHttps b s))"
  have ef: "effects (onChangeUpgradedHttps b s) = resolveInitialRender (st (onChangeUpgradedHttps b s))"
    by (simp add: onChangeUpgradedHttps_def Let_def)
  have q: "getBackgroundTabDataPromises (st (onChangeUpgradedHttps b s)) = getBackgroundTabDataPromises s"
    and c: "channel (st (onChangeUpgradedHttps b s)) = channel s"
    by (simp_all add: onChangeUpgradedHttps_def Let_def split: option.split)
  show "effects (onChangeUpgradedHttps b s)
        = map (\<lambda>r. Resolve r (combineSources (st (onChangeUpgradedHttps b s))))
            (getBackgroundTabDataPromises s) @ channel_send s ''updateTabData''"
    unfolding ef using a q c by (simp add: resolveInitialRender_ready channel_send_def)
next
  show "effects (getBackgroundTabData r s)
        = (if trackerBlockingData s \<noteq> None then [Resolve r (combineSources s)] else [])"
    by (simp add: getBackgroundTabData_def)
next
  show "getBackgroundTabDataPromises (st (getBackgroundTabData r s))
        = (if trackerBlockingData s \<noteq> None then getBackgroundTabDataPromises s
           else getBackgroundTabDataPromises s @ [r])"
    by (simp add: getBackgroundTabData_def)
qed

theorem readiness_gate_amended_witness:
  "ready (st (onChangeRequestData example_deps ''https://example.com'' example_requestData
        (run example_deps
           [Locale example_locale, UpgradedHttps (JBool False),
            ProtectionStatus example_protections] example_waiting)))
   \<and> effects (onChangeRequestData example_deps ''https://example.com'' example_requestData
        (run example_deps
           [Locale example_locale, UpgradedHttps (JBool False),
            ProtectionStatus example_protections] example_waiting))
     = [Resolve 0 (combineSources
          (st (onChangeRequestData example_deps ''https://example.com'' example_requestData
            (run example_deps
               [Locale example_locale, UpgradedHttps (JBool False),
                ProtectionStatus example_protections] example_waiting))))]
   \<and> ready (st (onChangeUpgradedHttps (JBool False)
        (run example_deps
           [Locale example_locale, ProtectionStatus example_protections,
            RequestData ''https://example.com'' example_requestData] example_waiting)))
   \<and> effects (onChangeUpgradedHttps (JBool False)
        (run example_deps
           [Locale example_locale, ProtectionStatus example_protections,
            RequestData ''https://example.com'' example_requestData] example_waiting))
     = [Resolve 0 (combineSources
          (st (onChangeUpgradedHttps (JBool False)
            (run example_deps
               [Locale example_locale, ProtectionStatus example_protections,
                RequestData ''https://example.com'' example_requestData] example_waiting))))]
   \<and> ready (st (onChangeProtectionStatus example_deps example_protections
        (run example_deps
           [Locale example_locale, UpgradedHttps (JBool False),
            ProtectionStatus example_protections,
            RequestData ''https://example.com'' example_requestData] example_waiting)))
   \<and> effects (onChangeProtectionStatus example_deps example_protections
        (run example_deps
           [Locale example_locale, UpgradedHttps (JBool False),
            ProtectionStatus example_protections,
            RequestData ''https://example.com'' example_requestData] example_waiting))
     = [Resolve 0 (combineSources
          (st (onChangeProtectionStatus example_deps example_protections
            (run example_deps
               [Locale example_locale, UpgradedHttps (JBool False),
                ProtectionStatus example_protections,
                RequestData ''https://example.com'' example_requestData] example_waiting))))]"
  using
    readiness_gate_amended
      [where D = example_deps
         and s = "run example_deps
           [Locale example_locale, UpgradedHttps (JBool False),
            ProtectionStatus example_protections] example_waiting"
         and u = "RequestData ''https://example.com'' example_requestData"
         and raw = example_requestData and data = example_requestData
         and tabUrl = "''https://example.com''"
         and raw' = JNull and b = JNull and r = 1]
    readiness_gate_amended
      [where D = example_deps
         and s = "run example_deps
           [Locale example_locale, ProtectionStatus example_protections,
            RequestData ''https://example.com'' example_requestData] example_waiting"
         and u = "UpgradedHttps (JBool False)"
         and raw = JNull and tabUrl = "''''"
         and raw' = JNull and b = "JBool False" and r = 1]
    readiness_gate_amended
      [where D = example_deps
         and s = "run example_deps
           [Locale example_locale, UpgradedHttps (JBool False),
            ProtectionStatus example_protections,
            RequestData ''https://example.com'' example_requestData] example_waiting"
         and u = "ProtectionStatus example_protections"
         and raw = JNull and tabUrl = "''''"
         and raw' = example_protections and p = "[''allowlisted'' \<mapsto> JBool False]"
         and b = JNull and r = 1]
  by (simp add: eval_defs ready_def getBackgroundTabData_def example_waiting_def)


section \<open>Settling the queued promises\<close>




section \<open>Precondition of a request-data delivery\<close>

text \<open>
  C3. While \<open>protections\<close> is unset, \<open>onChangeRequestData\<close> throws for every tab
  URL and every payload, valid or not, has no other effect, and leaves every module
  variable as it was; in particular \<open>trackerBlockingData\<close> stays as it was.
\<close>

theorem requestData_needs_protections:
  assumes "protections s = None"
  shows "thrown (onChangeRequestData D tabUrl raw s) = Some (Error ''protections status not set'')
       \<and> st (onChangeRequestData D tabUrl raw s) = s
       \<and> effects (onChangeRequestData D tabUrl raw s) = []"
  using assms by (simp add: onChangeRequestData_def)

theorem requestData_needs_protections_witness:
  "protections initial = None
   \<and> thrown (onChangeRequestData example_deps ''https://example.com'' (JObj Map.empty) initial)
       = Some (Error ''protections status not set'')
   \<and> st (onChangeRequestData example_deps ''https://example.com'' (JObj Map.empty) initial)
       = initial
   \<and> effects (onChangeRequestData example_deps ''https://example.com'' (JObj Map.empty) initial)
       = []"
  using requestData_needs_protections
    [of initial example_deps "''https://example.com''" "JObj Map.empty"]
  by (simp add: initial_def)

section \<open>Payloads that fail validation\<close>

text \<open>
  C4, as stated, fails. \<open>onChangeRequestData\<close> tests \<open>protections\<close> before it
  looks at the result of the parser: with \<open>protections\<close> unset, a payload that fails
  validation makes it throw, and nothing is logged.
\<close>

theorem validation_failure_counterexample:
  "requestDataSchema example_deps JNull = Inl (ZodError ''expected object'')
   \<and> thrown (onChangeRequestData example_deps ''https://example.com'' JNull initial)
       = Some (Error ''protections status not set'')
   \<and> effects (onChangeRequestData example_deps ''https://example.com'' JNull initial) = []"
  by (simp add: eval_defs)

text \<open>
  C4, amended. A payload that fails validation is logged and dropped, the state is left as
  it was and nothing is thrown: in \<open>onChangeProtectionStatus\<close>,
  \<open>onChangeLocale\<close> and \<open>onChangeConsentManaged\<close> always, and in
  \<open>onChangeRequestData\<close> when \<open>protections\<close> is set.
\<close>

theorem validation_failure_amended:
  "(requestDataSchema D raw = Inl e \<and> protections s \<noteq> None \<longrightarrow>
      onChangeRequestData D tabUrl raw s =
        \<lparr> st = s,
          effects =
            [ConsoleError
               (Text ''could not parse incoming request data from `onChangeRequestData`''),
             ConsoleLog (Err e)],
          thrown = None \<rparr>)
   \<and> (protectionsStatusSchema D raw = Inl e \<longrightarrow>
      onChangeProtectionStatus D raw s =
        \<lparr> st = s,
          effects =
            [ConsoleError
               (Text ''could not parse incoming protection status from onChangeProtectionStatus''),
             ConsoleError (Err e)],
          thrown = None \<rparr>)
   \<and> (localeSettingsSchema D raw = Inl e \<longrightarrow>
      onChangeLocale D raw s =
        \<lparr> st = s,
          effects =
            [ConsoleError (Text ''could not parse incoming data from onChangeLocale''),
             ConsoleError (Err e)],
          thrown = None \<rparr>)
   \<and> (cookiePromptManagementStatusSchema D raw = Inl e \<longrightarrow>
      onChangeConsentManaged D raw s =
        \<lparr> st = s,
          effects =
            [ConsoleError (Text ''could not parse incoming data from onChangeConsentManaged''),
             ConsoleError (Err e)],
          thrown = None \<rparr>)"
  by (auto simp add: handler_defs)

theorem validation_failure_amended_witness:
  "requestDataSchema example_deps JNull = Inl (ZodError ''expected object'')
   \<and> protections (run example_deps [ProtectionStatus example_protections] initial) \<noteq> None
   \<and> st (onChangeRequestData example_deps ''https://example.com'' JNull
        (run example_deps [ProtectionStatus example_protections] initial))
       = run example_deps [ProtectionStatus example_protections] initial
   \<and> thrown (onChangeRequestData example_deps ''https://example.com'' JNull
        (run example_deps [ProtectionStatus example_protections] initial)) = None
   \<and> protectionsStatusSchema example_deps JNull = Inl (ZodError ''expected object'')
   \<and> localeSettingsSchema example_deps JNull = Inl (ZodError ''expected object'')
   \<and> cookiePromptManagementStatusSchema example_deps JNull = Inl (ZodError ''expected object'')
   \<and> st (onChangeProtectionStatus example_deps JNull
        (run example_deps [ProtectionStatus example_protections] initial))
       = run example_deps [ProtectionStatus example_protections] initial
   \<and> st (onChangeLocale example_deps JNull
        (run example_deps [ProtectionStatus example_protections] initial))
       = run example_deps [ProtectionStatus example_protections] initial
   \<and> st (onChangeConsentManaged example_deps JNull
        (run example_deps [ProtectionStatus example_protections] initial))
       = run example_deps [ProtectionStatus example_protections] initial"
  using validation_failure_amended
    [where D = example_deps and raw = JNull and e = "ZodError ''expected object''"
       and s = "run example_deps [ProtectionStatus example_protections] initial"
       and tabUrl = "''https://example.com''"]
  by (simp add: eval_defs)

section \<open>Reading a snapshot\<close>

lemma object_assign_one: "object_assign t [x] = t ++ x"
  by (simp add: object_assign_def)

lemma snapshot_tab_combineSources:
  "snapshot_tab (combineSources s) =
     object_assign Map.empty
       [ (case trackerBlockingData s of None \<Rightarrow> Map.empty | Some t \<Rightarrow> t),
         [''isPendingUpdates'' \<mapsto> isPendingUpdates s,
          ''parentEntity'' \<mapsto> parentEntity s,
          ''cookiePromptManagementStatus'' \<mapsto> JObj (cookiePromptManagementStatus s),
          ''platformLimitations'' \<mapsto> JBool True,
          ''locale'' \<mapsto> opt_str (locale_v s)],
         (if truthy (permissionsData s) then [''permissions'' \<mapsto> permissionsData s]
          else Map.empty),
         (if truthy (certificateData s) then [''certificate'' \<mapsto> certificateData s]
          else Map.empty) ]"
  by (simp add: snapshot_tab_def combineSources_def)

lemma tab_cookiePromptManagementStatus:
  "getprop (snapshot_tab (combineSources s)) ''cookiePromptManagementStatus''
     = JObj (cookiePromptManagementStatus s)"
  by (simp add: snapshot_tab_combineSources object_assign_def getprop_def map_add_def)

lemma tab_upgradedHttps:
  "trackerBlockingData s = Some t \<Longrightarrow>
   getprop (snapshot_tab (combineSources s)) ''upgradedHttps'' = getprop t ''upgradedHttps''"
  by (simp add: snapshot_tab_combineSources object_assign_def getprop_def map_add_def)

section \<open>Merging and replacing\<close>

text \<open>
  C5. Two valid consent-managed updates whose objects have no key in common leave the
  accumulator \<open>cookiePromptManagementStatus\<close> equal to what it was, overridden by
  the union of the two objects (the order of the two does not matter), so every key of
  either object has the value that object gives it, and the next snapshot carries that
  accumulator. Two valid protections updates leave \<open>protections\<close> equal to the
  second payload. Each other variable is assigned by its own update without regard to
  what it held: the locale, \<open>trackerBlockingData\<close> (built from the payload and the
  current \<open>upgradedHttps\<close> and \<open>protections\<close>), the permissions,
  \<open>upgradedHttps\<close>, the pending-updates flag, the parent entity and the certificate
  data.
\<close>

theorem merge_vs_replace:
  "(cookiePromptManagementStatusSchema D rawA = Inr pA
      \<and> cookiePromptManagementStatusSchema D rawB = Inr pB
      \<and> dom pA \<inter> dom pB = {} \<longrightarrow>
        cookiePromptManagementStatus (run D [ConsentManaged rawA, ConsentManaged rawB] s)
          = cookiePromptManagementStatus s ++ (pA ++ pB)
      \<and> pA ++ pB = pB ++ pA
      \<and> (\<forall>k \<in> dom pA.
           cookiePromptManagementStatus (run D [ConsentManaged rawA, ConsentManaged rawB] s) k
             = pA k)
      \<and> (\<forall>k \<in> dom pB.
           cookiePromptManagementStatus (run D [ConsentManaged rawA, ConsentManaged rawB] s) k
             = pB k)
      \<and> getprop (snapshot_tab (combineSources
             (run D [ConsentManaged rawA, ConsentManaged rawB] s)))
           ''cookiePromptManagementStatus''
          = JObj (cookiePromptManagementStatus s ++ (pA ++ pB)))
   \<and> (protectionsStatusSchema D qA = Inr dA \<and> protectionsStatusSchema D qB = Inr dB \<longrightarrow>
        protections (run D [ProtectionStatus qA, ProtectionStatus qB] s) = Some dB)
   \<and> (localeSettingsSchema D raw = Inr l \<longrightarrow> locale_v (st (onChangeLocale D raw s)) = Some l)
   \<and> (protections s = Some p \<and> requestDataSchema D raw' = Inr data \<longrightarrow>
        trackerBlockingData (st (onChangeRequestData D tabUrl raw' s))
          = Some (createTabData D tabUrl (upgradedHttps s) p data))
   \<and> permissionsData (st (onChangeAllowedPermissions v s)) = v
   \<and> upgradedHttps (st (onChangeUpgradedHttps v s)) = v
   \<and> isPendingUpdates (st (onIsPendingUpdates v s)) = v
   \<and> parentEntity (st (onChangeParentEntity v s)) = v
   \<and> certificateData (st (onChangeCertificateData (JObj c) s))
        = getprop c ''secCertificateViewModels''"
proof (intro conjI impI ballI)
  assume a: "cookiePromptManagementStatusSchema D rawA = Inr pA
      \<and> cookiePromptManagementStatusSchema D rawB = Inr pB \<and> dom pA \<inter> dom pB = {}"
  then show acc: "cookiePromptManagementStatus (run D [ConsentManaged rawA, ConsentManaged rawB] s)
          = cookiePromptManagementStatus s ++ (pA ++ pB)"
    by (simp add: onChangeConsentManaged_def object_assign_one Let_def)
  from a have "dom pA \<inter> dom pB = {}" by simp
  then show "pA ++ pB = pB ++ pA" by (rule map_add_comm)
  show "getprop (snapshot_tab (combineSources
             (run D [ConsentManaged rawA, ConsentManaged rawB] s)))
           ''cookiePromptManagementStatus''
          = JObj (cookiePromptManagementStatus s ++ (pA ++ pB))"
    by (simp only: tab_cookiePromptManagementStatus acc)
  {
    fix k assume "k \<in> dom pA"
    with a have "k \<notin> dom pB" by auto
    with \<open>k \<in> dom pA\<close>
    show "cookiePromptManagementStatus (run D [ConsentManaged rawA, ConsentManaged rawB] s) k
             = pA k"
      unfolding acc by (auto simp add: map_add_def split: option.split)
  }
  {
    fix k assume "k \<in> dom pB"
    then show "cookiePromptManagementStatus (run D [ConsentManaged rawA, ConsentManaged rawB] s) k
             = pB k"
      unfolding acc by (auto simp add: map_add_def split: option.split)
  }
next
  assume "protectionsStatusSchema D qA = Inr dA \<and> protectionsStatusSchema D qB = Inr dB"
  then show "protections (run D [ProtectionStatus qA, ProtectionStatus qB] s) = Some dB"
    by (simp add: onChangeProtectionStatus_def Let_def)
next
  assume "localeSettingsSchema D raw = Inr l"
  then show "locale_v (st (onChangeLocale D raw s)) = Some l"
    by (simp add: onChangeLocale_def Let_def)
next
  assume "protections s = Some p \<and> requestDataSchema D raw' = Inr data"
  then show "trackerBlockingData (st (onChangeRequestData D tabUrl raw' s))
          = Some (createTabData D tabUrl (upgradedHttps s) p data)"
    by (simp add: onChangeRequestData_def Let_def)
next
  show "permissionsData (st (onChangeAllowedPermissions v s)) = v"
    by (simp add: onChangeAllowedPermissions_def Let_def)
  show "upgradedHttps (st (onChangeUpgradedHttps v s)) = v"
    by (simp add: onChangeUpgradedHttps_def Let_def split: option.split)
  show "isPendingUpdates (st (onIsPendingUpdates v s)) = v"
    by (simp add: onIsPendingUpdates_def Let_def)
  show "parentEntity (st (onChangeParentEntity v s)) = v"
    by (simp add: onChangeParentEntity_def Let_def)
  show "certificateData (st (onChangeCertificateData (JObj c) s))
        = getprop c ''secCertificateViewModels''"
    by (simp add: onChangeCertificateData_def Let_def)
qed

theorem merge_vs_replace_witness:
  "cookiePromptManagementStatusSchema example_deps (JObj [''consentManaged'' \<mapsto> JBool True])
     = Inr [''consentManaged'' \<mapsto> JBool True]
   \<and> cookiePromptManagementStatusSchema example_deps (JObj [''cosmetic'' \<mapsto> JBool False])
     = Inr [''cosmetic'' \<mapsto> JBool False]
   \<and> dom [''consentManaged'' \<mapsto> JBool True] \<inter> dom [''cosmetic'' \<mapsto> JBool False] = {}
   \<and> cookiePromptManagementStatus
        (run example_deps
           [ConsentManaged (JObj [''consentManaged'' \<mapsto> JBool True]),
            ConsentManaged (JObj [''cosmetic'' \<mapsto> JBool False])] initial)
       = [''consentManaged'' \<mapsto> JBool True, ''cosmetic'' \<mapsto> JBool False]
   \<and> protections
        (run example_deps
           [ProtectionStatus (JObj [''denylisted'' \<mapsto> JBool True]),
            ProtectionStatus example_protections] initial)
       = Some [''allowlisted'' \<mapsto> JBool False]"
  using merge_vs_replace
    [where D = example_deps and s = initial
       and rawA = "JObj [''consentManaged'' \<mapsto> JBool True]"
       and pA = "[''consentManaged'' \<mapsto> JBool True]"
       and rawB = "JObj [''cosmetic'' \<mapsto> JBool False]"
       and pB = "[''cosmetic'' \<mapsto> JBool False]"
       and qA = "JObj [''denylisted'' \<mapsto> JBool True]"
       and dA = "[''denylisted'' \<mapsto> JBool True]"
       and qB = example_protections
       and dB = "[''allowlisted'' \<mapsto> JBool False]"
       and raw = example_locale and l = "''en''"
       and raw' = JNull and tabUrl = "''''" and v = JNull and c = Map.empty]
  by (simp add: eval_defs)

section \<open>Recomputing the tab data\<close>

text \<open>
  C6. With \<open>protections\<close> set, a valid request-data delivery sets
  \<open>trackerBlockingData\<close> to \<open>createTabData\<close> of the tab URL, the current
  \<open>upgradedHttps\<close>, the current \<open>protections\<close> and the parsed payload; after
  an \<open>upgradedHttps\<close> update to \<open>b\<close>, delivering the same payload again sets
  it to \<open>createTabData\<close> of the same arguments with \<open>b\<close> for
  \<open>upgradedHttps\<close>. For the \<open>createTabData\<close> modelled from the
  specification, the two results agree on every property but \<open>upgradedHttps\<close>,
  which holds the value current at each delivery.
\<close>

theorem dependency_recompute:
  assumes "protections s = Some p" and "requestDataSchema D raw = Inr data"
  shows "trackerBlockingData (st (onChangeRequestData D tabUrl raw s))
           = Some (createTabData D tabUrl (upgradedHttps s) p data)
       \<and> trackerBlockingData
           (st (onChangeRequestData D tabUrl raw
              (st (onChangeUpgradedHttps b (st (onChangeRequestData D tabUrl raw s))))))
           = Some (createTabData D tabUrl b p data)
       \<and> (\<forall>k. k \<noteq> ''upgradedHttps'' \<longrightarrow>
             createTabData_spec tabUrl (upgradedHttps s) p data k
               = createTabData_spec tabUrl b p data k)
       \<and> createTabData_spec tabUrl (upgradedHttps s) p data ''upgradedHttps''
           = Some (upgradedHttps s)
       \<and> createTabData_spec tabUrl b p data ''upgradedHttps'' = Some b"
  using assms
  by (simp add: onChangeRequestData_def onChangeUpgradedHttps_def createTabData_spec_def Let_def)

theorem dependency_recompute_witness:
  "protections (run example_deps [ProtectionStatus example_protections] initial)
     = Some [''allowlisted'' \<mapsto> JBool False]
   \<and> requestDataSchema example_deps example_requestData = Inr example_requestData
   \<and> trackerBlockingData
       (run example_deps
          [ProtectionStatus example_protections,
           RequestData ''https://example.com'' example_requestData] initial)
     = Some (createTabData_spec ''https://example.com'' JUndefined
               [''allowlisted'' \<mapsto> JBool False] example_requestData)
   \<and> trackerBlockingData
       (run example_deps
          [ProtectionStatus example_protections,
           RequestData ''https://example.com'' example_requestData,
           UpgradedHttps (JBool True),
           RequestData ''https://example.com'' example_requestData] initial)
     = Some (createTabData_spec ''https://example.com'' (JBool True)
               [''allowlisted'' \<mapsto> JBool False] example_requestData)"
  using dependency_recompute
    [where D = example_deps
       and s = "run example_deps [ProtectionStatus example_protections] initial"
       and p = "[''allowlisted'' \<mapsto> JBool False]"
       and raw = example_requestData and data = example_requestData
       and tabUrl = "''https://example.com''" and b = "JBool True"]
  by (simp add: eval_defs)

section \<open>Combining twice\<close>

text \<open>
  C7. \<open>getBackgroundTabData\<close> changes nothing that \<open>combineSources\<close> reads:
  combining after it gives what combining before it gives, and \<open>combineSources\<close>
  does not depend on the channel or on the queue. Once \<open>trackerBlockingData\<close> is
  set, two calls in a row with no update in between resolve with the same snapshot.
\<close>

theorem combine_idempotent:
  "combineSources (st (getBackgroundTabData r s)) = combineSources s
   \<and> combineSources (s\<lparr>channel := c, getBackgroundTabDataPromises := q\<rparr>) = combineSources s
   \<and> (trackerBlockingData s \<noteq> None \<longrightarrow>
        effects (getBackgroundTabData rA s) = [Resolve rA (combineSources s)]
        \<and> effects (getBackgroundTabData rB (st (getBackgroundTabData rA s)))
            = [Resolve rB (combineSources s)])"
  by (simp add: getBackgroundTabData_def combineSources_def)

theorem combine_idempotent_witness:
  "trackerBlockingData
     (run example_deps
        [ProtectionStatus example_protections,
         RequestData ''https://example.com'' example_requestData] initial) \<noteq> None
   \<and> effects (getBackgroundTabData 1
        (run example_deps
           [ProtectionStatus example_protections,
            RequestData ''https://example.com'' example_requestData] initial))
     = [Resolve 1 (combineSources
          (run example_deps
             [ProtectionStatus example_protections,
              RequestData ''https://example.com'' example_requestData] initial))]
   \<and> effects (getBackgroundTabData 2 (st (getBackgroundTabData 1
        (run example_deps
           [ProtectionStatus example_protections,
            RequestData ''https://example.com'' example_requestData] initial))))
     = [Resolve 2 (combineSources
          (run example_deps
             [ProtectionStatus example_protections,
              RequestData ''https://example.com'' example_requestData] initial))]"
  using combine_idempotent
    [where s = "run example_deps
        [ProtectionStatus example_protections,
         RequestData ''https://example.com'' example_requestData] initial"
       and r = 1 and rA = 1 and rB = 2 and c = None and q = "[]"]
  by (simp add: eval_defs getBackgroundTabData_def)

section \<open>Patching the tab data\<close>

text \<open>
  C10. When \<open>trackerBlockingData\<close> is set, an \<open>upgradedHttps\<close> update with
  value \<open>b\<close> throws nothing and leaves the state as it was except for
  \<open>upgradedHttps\<close>, now \<open>b\<close>, and \<open>trackerBlockingData\<close>, whose
  \<open>upgradedHttps\<close> property is now \<open>b\<close> and whose other properties are as
  before; the snapshot combined from the new state has \<open>b\<close> as the
  \<open>upgradedHttps\<close> of its tab.
\<close>

theorem upgradedHttps_patches_trackerBlockingData:
  assumes "trackerBlockingData s = Some t"
  shows "st (onChangeUpgradedHttps b s)
           = s\<lparr>upgradedHttps := b, trackerBlockingData := Some (t(''upgradedHttps'' \<mapsto> b))\<rparr>
       \<and> thrown (onChangeUpgradedHttps b s) = None
       \<and> getprop (t(''upgradedHttps'' \<mapsto> b)) ''upgradedHttps'' = b
       \<and> (\<forall>k. k \<noteq> ''upgradedHttps'' \<longrightarrow> (t(''upgradedHttps'' \<mapsto> b)) k = t k)
       \<and> getprop (snapshot_tab (combineSources (st (onChangeUpgradedHttps b s))))
           ''upgradedHttps'' = b"
proof -
  have s': "st (onChangeUpgradedHttps b s)
           = s\<lparr>upgradedHttps := b, trackerBlockingData := Some (t(''upgradedHttps'' \<mapsto> b))\<rparr>"
    using assms by (simp add: onChangeUpgradedHttps_def Let_def)
  have "trackerBlockingData (st (onChangeUpgradedHttps b s)) = Some (t(''upgradedHttps'' \<mapsto> b))"
    unfolding s' by simp
  then have "getprop (snapshot_tab (combineSources (st (onChangeUpgradedHttps b s))))
           ''upgradedHttps'' = getprop (t(''upgradedHttps'' \<mapsto> b)) ''upgradedHttps''"
    by (rule tab_upgradedHttps)
  moreover have "getprop (t(''upgradedHttps'' \<mapsto> b)) ''upgradedHttps'' = b"
    by (simp add: getprop_def)
  moreover have "thrown (onChangeUpgradedHttps b s) = None"
    by (simp add: onChangeUpgradedHttps_def Let_def)
  ultimately show ?thesis using s' by simp
qed

theorem upgradedHttps_patches_trackerBlockingData_witness:
  "trackerBlockingData
     (run example_deps
        [ProtectionStatus example_protections,
         RequestData ''https://example.com'' example_requestData] initial)
     = Some (createTabData_spec ''https://example.com'' JUndefined
               [''allowlisted'' \<mapsto> JBool False] example_requestData)
   \<and> getprop (snapshot_tab (combineSources
        (st (onChangeUpgradedHttps (JBool True)
          (run example_deps
             [ProtectionStatus example_protections,
              RequestData ''https://example.com'' example_requestData] initial)))))
       ''upgradedHttps'' = JBool True
   \<and> getprop (snapshot_tab (combineSources
          (run example_deps
             [ProtectionStatus example_protections,
              RequestData ''https://example.com'' example_requestData] initial)))
       ''upgradedHttps'' = JUndefined"
  using upgradedHttps_patches_trackerBlockingData
    [where s = "run example_deps
        [ProtectionStatus example_protections,
         RequestData ''https://example.com'' example_requestData] initial"
       and t = "createTabData_spec ''https://example.com'' JUndefined
               [''allowlisted'' \<mapsto> JBool False] example_requestData"
       and b = "JBool True"]
    tab_upgradedHttps
    [where s = "run example_deps
        [ProtectionStatus example_protections,
         RequestData ''https://example.com'' example_requestData] initial"
       and t = "createTabData_spec ''https://example.com'' JUndefined
               [''allowlisted'' \<mapsto> JBool False] example_requestData"]
  by (simp add: eval_defs createTabData_spec_def getprop_def)

section \<open>Translating the allowlist toggle\<close>

lemma posted_append: "posted (xs @ ys) = posted xs @ posted ys"
  by (induction xs rule: posted.induct) simp_all

lemma fetch_lists_posted:
  assumes "has_handler w ''privacyDashboardSetProtection''"
  shows "posted (effects (fetch_lists origin ls w))
           = map (\<lambda>listItem.
                (''privacyDashboardSetProtection'',
                 JObj [''eventOrigin'' \<mapsto> origin,
                       ''isProtected'' \<mapsto> JBool (getprop listItem ''value'' = JBool False)]))
               (filter (\<lambda>listItem. getprop listItem ''list'' = JStr ''allowlisted'') ls)
       \<and> thrown (fetch_lists origin ls w) = None
       \<and> st (fetch_lists origin ls w) = w"
  using assms
  by (induction ls)
    (simp_all add: privacyDashboardSetProtection_def postMessage_def Let_def posted_append)

text \<open>
  C8. When the host provides the \<open>privacyDashboardSetProtection\<close> handler,
  \<open>fetch\<close> on a \<open>SetListsMessage\<close> throws nothing and posts exactly one
  message per entry whose \<open>list\<close> is \<open>allowlisted\<close>, in order, to that
  handler, with the event origin of the message and \<open>isProtected\<close> true exactly
  when the entry's \<open>value\<close> is \<open>false\<close>, and it posts nothing else. So an
  entry with the boolean value \<open>v\<close> yields \<open>isProtected\<close> equal to the
  negation of \<open>v\<close>, and an entry with another list name yields no message.
\<close>

theorem intent_translation:
  assumes "has_handler w ''privacyDashboardSetProtection''"
  shows "posted (effects (fetch resolve (SetListsMessage ls origin) w))
           = map (\<lambda>listItem.
                (''privacyDashboardSetProtection'',
                 JObj [''eventOrigin'' \<mapsto> origin,
                       ''isProtected'' \<mapsto> JBool (getprop listItem ''value'' = JBool False)]))
               (filter (\<lambda>listItem. getprop listItem ''list'' = JStr ''allowlisted'') ls)
       \<and> thrown (fetch resolve (SetListsMessage ls origin) w) = None
       \<and> (getprop listItem ''list'' = JStr ''allowlisted''
            \<and> getprop listItem ''value'' = JBool v \<longrightarrow>
          posted (effects (fetch resolve (SetListsMessage [listItem] origin) w))
            = [(''privacyDashboardSetProtection'',
                JObj [''eventOrigin'' \<mapsto> origin, ''isProtected'' \<mapsto> JBool (\<not> v)])])
       \<and> (getprop listItem ''list'' \<noteq> JStr ''allowlisted'' \<longrightarrow>
          posted (effects (fetch resolve (SetListsMessage [listItem] origin) w)) = [])"
  using fetch_lists_posted[OF assms, of origin ls]
    fetch_lists_posted[OF assms, of origin "[listItem]"]
  by auto

theorem intent_translation_witness:
  "has_handler example_window ''privacyDashboardSetProtection''
   \<and> posted (effects (fetch 0
        (SetListsMessage
           [[''list'' \<mapsto> JStr ''allowlisted'', ''value'' \<mapsto> JBool True]]
           (JStr ''primaryScreen'')) example_window))
     = [(''privacyDashboardSetProtection'',
         JObj [''eventOrigin'' \<mapsto> JStr ''primaryScreen'', ''isProtected'' \<mapsto> JBool False])]
   \<and> posted (effects (fetch 0
        (SetListsMessage
           [[''list'' \<mapsto> JStr ''allowlisted'', ''value'' \<mapsto> JBool False]]
           (JStr ''primaryScreen'')) example_window))
     = [(''privacyDashboardSetProtection'',
         JObj [''eventOrigin'' \<mapsto> JStr ''primaryScreen'', ''isProtected'' \<mapsto> JBool True])]
   \<and> posted (effects (fetch 0
        (SetListsMessage
           [[''list'' \<mapsto> JStr ''denylisted'', ''value'' \<mapsto> JBool True]]
           (JStr ''primaryScreen'')) example_window))
     = []"
  using
    intent_translation
      [where w = example_window and resolve = 0 and origin = "JStr ''primaryScreen''"
         and listItem = "[''list'' \<mapsto> JStr ''allowlisted'', ''value'' \<mapsto> JBool True]"
         and v = True and ls = "[]"]
    intent_translation
      [where w = example_window and resolve = 0 and origin = "JStr ''primaryScreen''"
         and listItem = "[''list'' \<mapsto> JStr ''allowlisted'', ''value'' \<mapsto> JBool False]"
         and v = False and ls = "[]"]
    intent_translation
      [where w = example_window and resolve = 0 and origin = "JStr ''primaryScreen''"
         and listItem = "[''list'' \<mapsto> JStr ''denylisted'', ''value'' \<mapsto> JBool True]"
         and v = True and ls = "[]"]
  by (simp add: has_handler_def example_window_def getprop_def)

section \<open>Replies to a request for the toggle-report options\<close>

lemma replies_without_handler:
  "onGetToggleReportOptionsResponse w = None \<Longrightarrow>
   bridge_trace (map Reply ds) w = [] \<and> bridge_run (map Reply ds) w = w"
  by (induction ds) (simp_all add: reply_onGetToggleReportOptionsResponse_def failed_def)

lemma resolved_once:
  "distinct (requests cs) \<Longrightarrow>
   (\<forall>r. onGetToggleReportOptionsResponse w = Some r \<longrightarrow> r \<notin> set (requests cs)) \<Longrightarrow>
   distinct (resolved (bridge_trace cs w))
   \<and> set (resolved (bridge_trace cs w))
       \<subseteq> set (requests cs) \<union> set_option (onGetToggleReportOptionsResponse w)"
proof (induction cs arbitrary: w)
  case Nil
  then show ?case by simp
next
  case (Cons c cs)
  show ?case
  proof (cases c)
    case (Request r)
    let ?w' = "st (privacyDashboardGetToggleReportOptions r w)"
    have res: "resolved (effects (privacyDashboardGetToggleReportOptions r w)) = []"
      by (simp add: privacyDashboardGetToggleReportOptions_def failed_def)
    have slot: "onGetToggleReportOptionsResponse ?w' = Some r
                \<or> onGetToggleReportOptionsResponse ?w' = onGetToggleReportOptionsResponse w"
      by (simp add: privacyDashboardGetToggleReportOptions_def failed_def)
    from Cons.prems Request have d: "distinct (requests cs)" and nr: "r \<notin> set (requests cs)"
      by simp_all
    from Cons.prems Request slot nr
    have "\<forall>r'. onGetToggleReportOptionsResponse ?w' = Some r' \<longrightarrow> r' \<notin> set (requests cs)"
      by auto
    from Cons.IH[OF d this] slot Request res show ?thesis
      by (auto simp add: resolved_append)
  next
    case (Reply data)
    show ?thesis
    proof (cases "onGetToggleReportOptionsResponse w")
      case None
      then have "st (reply_onGetToggleReportOptionsResponse data w) = w"
        and "effects (reply_onGetToggleReportOptionsResponse data w) = []"
        by (simp_all add: reply_onGetToggleReportOptionsResponse_def failed_def)
      with Cons.IH[of w] Cons.prems Reply show ?thesis by simp
    next
      case (Some r)
      let ?w' = "w\<lparr>onGetToggleReportOptionsResponse := None\<rparr>"
      from Some have s: "st (reply_onGetToggleReportOptionsResponse data w) = ?w'"
        and e: "effects (reply_onGetToggleReportOptionsResponse data w) = [Resolve r data]"
        by (simp_all add: reply_onGetToggleReportOptionsResponse_def)
      from Cons.prems Reply Some have d: "distinct (requests cs)" and nr: "r \<notin> set (requests cs)"
        by simp_all
      have "\<forall>r'. onGetToggleReportOptionsResponse ?w' = Some r' \<longrightarrow> r' \<notin> set (requests cs)"
        by simp
      from Cons.IH[OF d this] nr s e Reply Some show ?thesis
        by auto
    qed
  qed
qed

text \<open>
  C9. When the host provides the \<open>privacyDashboardGetToggleReportOptions\<close> handler,
  a request posts one message and installs one reply handler, the one of its promise; the
  first reply resolves that promise and removes the handler, and the replies after it do
  nothing: the promise is settled with the first reply. Over every sequence of requests and
  replies that starts with no handler installed, no promise's resolver is called twice.
\<close>

theorem single_reply_consumption:
  "(has_handler w ''privacyDashboardGetToggleReportOptions'' \<longrightarrow>
      onGetToggleReportOptionsResponse (st (privacyDashboardGetToggleReportOptions r w)) = Some r
      \<and> effects (privacyDashboardGetToggleReportOptions r w)
          = [PostMessage ''privacyDashboardGetToggleReportOptions'' (JObj Map.empty)]
      \<and> bridge_trace (Request r # Reply d # map Reply ds) w
          = [PostMessage ''privacyDashboardGetToggleReportOptions'' (JObj Map.empty),
             Resolve r d]
      \<and> onGetToggleReportOptionsResponse (bridge_run (Request r # Reply d # map Reply ds) w)
          = None
      \<and> (m r = None \<longrightarrow>
           fold settle (bridge_trace (Request r # Reply d # map Reply ds) w) m r = Some d))
   \<and> (distinct (requests cs) \<and> onGetToggleReportOptionsResponse w = None \<longrightarrow>
        distinct (resolved (bridge_trace cs w)))"
proof (intro conjI impI)
  assume h: "has_handler w ''privacyDashboardGetToggleReportOptions''"
  then have mh: "messageHandlers w \<noteq> None"
    by (auto simp add: has_handler_def split: option.splits)
  let ?w1 = "w\<lparr>onGetToggleReportOptionsResponse := Some r\<rparr>"
  let ?w2 = "w\<lparr>onGetToggleReportOptionsResponse := None\<rparr>"
  from h mh have s1: "st (privacyDashboardGetToggleReportOptions r w) = ?w1"
    and e1: "effects (privacyDashboardGetToggleReportOptions r w)
          = [PostMessage ''privacyDashboardGetToggleReportOptions'' (JObj Map.empty)]"
    by (auto simp add: privacyDashboardGetToggleReportOptions_def)
  have s2: "st (reply_onGetToggleReportOptionsResponse d ?w1) = ?w2"
    and e2: "effects (reply_onGetToggleReportOptionsResponse d ?w1) = [Resolve r d]"
    by (simp_all add: reply_onGetToggleReportOptionsResponse_def)
  have rest: "bridge_trace (map Reply ds) ?w2 = [] \<and> bridge_run (map Reply ds) ?w2 = ?w2"
    by (rule replies_without_handler) simp
  show "onGetToggleReportOptionsResponse (st (privacyDashboardGetToggleReportOptions r w)) = Some r"
    by (simp add: s1)
  show "effects (privacyDashboardGetToggleReportOptions r w)
          = [PostMessage ''privacyDashboardGetToggleReportOptions'' (JObj Map.empty)]"
    by (rule e1)
  show tr: "bridge_trace (Request r # Reply d # map Reply ds) w
          = [PostMessage ''privacyDashboardGetToggleReportOptions'' (JObj Map.empty),
             Resolve r d]"
    using rest by (simp add: s1 e1 s2 e2)
  show "onGetToggleReportOptionsResponse (bridge_run (Request r # Reply d # map Reply ds) w)
          = None"
    using rest by (simp add: s1 s2)
  assume "m r = None"
  then show "fold settle (bridge_trace (Request r # Reply d # map Reply ds) w) m r = Some d"
    unfolding tr by simp
next
  assume "distinct (requests cs) \<and> onGetToggleReportOptionsResponse w = None"
  then show "distinct (resolved (bridge_trace cs w))"
    using resolved_once[of cs w] by simp
qed

theorem single_reply_consumption_witness:
  "has_handler example_window ''privacyDashboardGetToggleReportOptions''
   \<and> bridge_trace [Request 0, Reply (JStr ''first''), Reply (JStr ''second'')] example_window
      = [PostMessage ''privacyDashboardGetToggleReportOptions'' (JObj Map.empty),
         Resolve 0 (JStr ''first'')]
   \<and> fold settle
        (bridge_trace [Request 0, Reply (JStr ''first''), Reply (JStr ''second'')] example_window)
        Map.empty 0
      = Some (JStr ''first'')
   \<and> distinct (requests [Request 0, Request 1, Reply (JStr ''first''), Reply (JStr ''second'')])
   \<and> resolved
        (bridge_trace [Request 0, Request 1, Reply (JStr ''first''), Reply (JStr ''second'')]
           example_window)
      = [1]"
  using single_reply_consumption
    [where w = example_window and r = 0 and d = "JStr ''first''" and ds = "[JStr ''second'']"
       and m = Map.empty
       and cs = "[Request 0, Request 1, Reply (JStr ''first''), Reply (JStr ''second'')]"]
  by (simp add: privacyDashboardGetToggleReportOptions_def
      reply_onGetToggleReportOptionsResponse_def failed_def has_handler_def example_window_def)

end
